theory Spec2Isabelle
  imports Main "HOL-Library.Multiset"
begin

section \<open>The release helper of the icon repository\<close>

text \<open>
  The program is the script \<^verbatim>\<open>.github/release_helper.py\<close>. It reads the tags of a git
  repository, lists the directory \<^verbatim>\<open>../svgs\<close> now and at the last release, and decides
  from the number of new files, the day of the month and the kind of trigger whether a
  release is cut. The embedding below follows the script top to bottom. Everything the
  script reads or changes outside its own variables (the environment, the clock, the
  repository, the directory, standard output) is a field of the record \<open>world\<close>, which
  every effectful function takes and returns; an exception is the left summand of the
  result, and the world returned with it holds the effects that happened before the raise.
\<close>

subsection \<open>Data: exceptions, tags, the repository, the world\<close>

text \<open>
  The exceptions the script can meet: \<^verbatim>\<open>IndexError\<close> from the list index, \<^verbatim>\<open>TypeError\<close>
  from reading the branch of a detached \<^verbatim>\<open>HEAD\<close>, \<^verbatim>\<open>GitCommandError\<close> from a failed
  \<^verbatim>\<open>git checkout\<close>, \<^verbatim>\<open>FileNotFoundError\<close> from \<^verbatim>\<open>os.listdir\<close>.
\<close>

datatype py_error = IndexError | TypeError | GitCommandError | FileNotFoundError

text \<open>
  A tag has a name and points to a commit; of the commit the script reads only
  \<^verbatim>\<open>committed_datetime\<close>, an instant in time, here the integer number of seconds since the
  epoch (two datetimes with time zones compare as their instants do).
\<close>

record commit =
  committed_datetime :: int

record tag =
  name :: string
  commit :: commit

text \<open>
  \<^verbatim>\<open>HEAD\<close> is either a symbolic reference to a local branch or detached at a revision.
\<close>

datatype head = Attached string | Detached string

text \<open>
  One line of standard output per constructor, with the values the f-string interpolates:
  \<^item> \<open>Checking_out v\<close>: \<^verbatim>\<open>Checking out version {last_version}\<close>
  \<^item> \<open>New_icons n\<close>: \<^verbatim>\<open>There have been {len(result)} new icons since release!\<close>
  \<^item> \<open>Manually_triggered\<close>: \<^verbatim>\<open>Manually triggered workflow, skipped all check, greenlighting!\<close>
  \<^item> \<open>Wrong_day d t\<close>: \<^verbatim>\<open>Today is {today_day}, which isn't the target release day {day_threshold}.\<close>
  \<^item> \<open>Below_threshold n t\<close>: \<^verbatim>\<open>Only {len(result)} new icons found since the last release, below the threshold of {new_threshold}.\<close>
  \<^item> \<open>Greenlight\<close>: \<^verbatim>\<open>Greenlight!\<close>
  \<^item> \<open>Verdict g\<close>: \<^verbatim>\<open>Not eligible for release!\<close> when \<open>g\<close> is false, \<^verbatim>\<open>Eligible for release! Greenlight away!\<close> otherwise.
\<close>

datatype line =
    Checking_out string
  | New_icons nat
  | Manually_triggered
  | Wrong_day int int
  | Below_threshold nat int
  | Greenlight
  | Verdict bool

text \<open>
  The world of one run.
  \<^item> \<open>environ\<close>: the process environment, read by \<^verbatim>\<open>os.getenv\<close>.
  \<^item> \<open>today\<close>: \<^verbatim>\<open>datetime.datetime.now().day\<close>, the day of the month of the local clock.
  \<^item> \<open>tags\<close>: \<^verbatim>\<open>git.Repo(REPOSITORY).tags\<close>, in the order the library lists them.
  \<^item> \<open>head\<close>: \<^verbatim>\<open>repo.head\<close>.
  \<^item> \<open>branches\<close>: the names of the local branches.
  \<^item> \<open>revs\<close>: for a revision name that \<^verbatim>\<open>git checkout\<close> accepts, what \<^verbatim>\<open>../svgs\<close> holds
    once it is checked out (\<open>None\<close> inside: the directory does not exist there); no entry
    for a name whose \<^verbatim>\<open>git checkout\<close> ends with an error.
  \<^item> \<open>half_done\<close>: for a revision name whose \<^verbatim>\<open>git checkout\<close> moves \<^verbatim>\<open>HEAD\<close> and the
    working tree and then ends with an error all the same (the exit status of a
    post-checkout hook is the exit status of the command), what \<^verbatim>\<open>../svgs\<close> holds after
    it. It is read only for a name without an entry in \<open>revs\<close>; a name with an entry in
    neither is refused by git before anything has moved.
  \<^item> \<open>svgs\<close>: the directory \<^verbatim>\<open>../svgs\<close> of the working tree as it is now (\<open>None\<close>: missing).
  \<^item> \<open>git_log\<close>: the argument of every \<^verbatim>\<open>git checkout\<close> that was run, oldest first,
    whether it succeeded or not.
  \<^item> \<open>stdout\<close>: the lines printed, oldest first.
\<close>

record world =
  environ :: "string \<rightharpoonup> string"
  today :: int
  tags :: "tag list"
  head :: head
  branches :: "string list"
  revs :: "string \<rightharpoonup> string list option"
  half_done :: "string \<rightharpoonup> string list option"
  svgs :: "string list option"
  git_log :: "string list"
  stdout :: "line list"

subsection \<open>The library calls the script makes\<close>

text \<open>\<^verbatim>\<open>print(...)\<close> appends a line to standard output.\<close>

definition print :: "line \<Rightarrow> world \<Rightarrow> world" where
  "print l w = w\<lparr>stdout := stdout w @ [l]\<rparr>"

text \<open>
  The subscript \<^verbatim>\<open>xs[i]\<close> of a list of length \<open>n\<close>: the positions \<open>0\<close> to \<open>n - 1\<close> are read
  as they are, the positions \<open>-n\<close> to \<open>-1\<close> are read from the end (\<open>-1\<close> is the last
  element), and every other position raises \<^verbatim>\<open>IndexError\<close>.
\<close>

definition py_index :: "'a list \<Rightarrow> int \<Rightarrow> py_error + 'a" where
  "py_index xs i =
     (if 0 \<le> i \<and> i < int (length xs) then Inr (xs ! nat i)
      else if i < 0 \<and> - int (length xs) \<le> i then Inr (xs ! nat (int (length xs) + i))
      else Inl IndexError)"

text \<open>
  \<^verbatim>\<open>sorted(xs, key=f)\<close> is a stable sort, ascending in the key: elements with equal keys
  keep the order they have in \<open>xs\<close>. There is exactly one such list for each input
  (lemma \<open>py_sorted_unique\<close> below), and \<^const>\<open>sort_key\<close> computes it.
\<close>

definition py_sorted :: "('a \<Rightarrow> int) \<Rightarrow> 'a list \<Rightarrow> 'a list" where
  "py_sorted f xs = sort_key f xs"

text \<open>
  A Python set of strings is kept as a list without duplicates. \<^verbatim>\<open>set(xs)\<close> drops the
  duplicates, \<^verbatim>\<open>a - b\<close> keeps the elements of \<open>a\<close> that are not in \<open>b\<close>, and \<^verbatim>\<open>list(s)\<close> lists
  the elements of the set. Python leaves the iteration order of a set open; the order
  chosen here is one of the possible ones, and no statement below depends on it.
\<close>

definition py_set :: "string list \<Rightarrow> string list" where
  "py_set xs = remdups xs"

definition py_set_diff :: "string list \<Rightarrow> string list \<Rightarrow> string list" where
  "py_set_diff a b = filter (\<lambda>x. x \<notin> set b) a"

definition py_list :: "string list \<Rightarrow> string list" where
  "py_list s = s"

text \<open>\<^verbatim>\<open>os.getenv(k)\<close> returns \<^verbatim>\<open>None\<close> for a variable that is not set.\<close>

definition getenv :: "(string \<rightharpoonup> string) \<Rightarrow> string \<Rightarrow> string option" where
  "getenv env k = env k"

text \<open>
  \<^verbatim>\<open>os.listdir('../svgs')\<close> raises \<^verbatim>\<open>FileNotFoundError\<close> when the directory is missing.
\<close>

definition listdir :: "world \<Rightarrow> py_error + string list" where
  "listdir w = (case svgs w of None \<Rightarrow> Inl FileNotFoundError | Some fs \<Rightarrow> Inr fs)"

text \<open>
  GitPython: \<^verbatim>\<open>repo.head.ref\<close> (an alias of \<^verbatim>\<open>reference\<close>) is the branch \<^verbatim>\<open>HEAD\<close> points to and
  raises \<^verbatim>\<open>TypeError\<close> when \<^verbatim>\<open>HEAD\<close> is detached; \<^verbatim>\<open>repo.active_branch\<close> returns
  \<^verbatim>\<open>self.head.reference\<close>, so it raises the same \<^verbatim>\<open>TypeError\<close> there;
  \<^verbatim>\<open>repo.head.is_detached\<close> tries \<^verbatim>\<open>self.ref\<close> and answers whether that raised \<^verbatim>\<open>TypeError\<close>.
  Each function below returns the \<^verbatim>\<open>.name\<close> of the branch.
\<close>

definition head_ref_name :: "world \<Rightarrow> py_error + string" where
  "head_ref_name w = (case head w of Attached b \<Rightarrow> Inr b | Detached c \<Rightarrow> Inl TypeError)"

definition active_branch_name :: "world \<Rightarrow> py_error + string" where
  "active_branch_name w = head_ref_name w"

definition is_detached :: "world \<Rightarrow> bool" where
  "is_detached w = (case head_ref_name w of Inl e \<Rightarrow> True | Inr b \<Rightarrow> False)"

text \<open>
  \<^verbatim>\<open>repo.git.checkout(ref)\<close> runs \<^verbatim>\<open>git checkout ref\<close> and raises \<^verbatim>\<open>GitCommandError\<close> when
  the command ends with an error. The command has three outcomes.
  \<^item> It succeeds: \<^verbatim>\<open>HEAD\<close> is attached to \<open>ref\<close> when \<open>ref\<close> names a local branch and
    detached at \<open>ref\<close> when it does not, and \<^verbatim>\<open>../svgs\<close> becomes what that revision holds.
  \<^item> It moves \<^verbatim>\<open>HEAD\<close> and the working tree in the same way and then ends with an error
    (a post-checkout hook that fails).
  \<^item> It is refused (a name that does not resolve, or one whose checkout would overwrite
    local changes): \<^verbatim>\<open>HEAD\<close> and the working tree stay as they were.
\<close>

definition checkout :: "string \<Rightarrow> world \<Rightarrow> (py_error + unit) \<times> world" where
  "checkout ref w =
     (let w1 = w\<lparr>git_log := git_log w @ [ref]\<rparr>;
          h = (if ref \<in> set (branches w) then Attached ref else Detached ref)
      in case revs w ref of
           Some d \<Rightarrow> (Inr (), w1\<lparr>head := h, svgs := d\<rparr>)
         | None \<Rightarrow>
             (case half_done w ref of
                Some d \<Rightarrow> (Inl GitCommandError, w1\<lparr>head := h, svgs := d\<rparr>)
              | None \<Rightarrow> (Inl GitCommandError, w1)))"

subsection \<open>The script\<close>

text \<open>Lines 7 and 8: the two thresholds.\<close>

definition NEW_THRESHOLD :: int where
  "NEW_THRESHOLD = 100"

definition DAY_THRESHOLD :: int where
  "DAY_THRESHOLD = 1"

text \<open>
  Line 19: \<^verbatim>\<open>sorted(tags, key=lambda t: t.commit.committed_datetime)[-2].name\<close>.
  The key function of the sort is \<open>commit_time\<close>.
\<close>

definition commit_time :: "tag \<Rightarrow> int" where
  "commit_time t = committed_datetime (commit t)"

definition last_release :: "tag list \<Rightarrow> py_error + string" where
  "last_release ts =
     (case py_index (py_sorted commit_time ts) (- 2) of
        Inl e \<Rightarrow> Inl e
      | Inr t \<Rightarrow> Inr (name t))"

text \<open>Lines 22 to 36.\<close>

definition is_workflow_dispatch :: "(string \<rightharpoonup> string) \<Rightarrow> bool" where
  "is_workflow_dispatch env =
     (if getenv env ''GITHUB_EVENT_NAME'' = Some ''workflow_dispatch''
         \<or> getenv env ''CI_PIPELINE_SOURCE'' = Some ''web''
      then True else False)"

text \<open>
  Line 52: \<^verbatim>\<open>repo.active_branch.name if repo.head.is_detached else repo.head.ref.name\<close>.
\<close>

definition original_ref :: "world \<Rightarrow> py_error + string" where
  "original_ref w = (if is_detached w then active_branch_name w else head_ref_name w)"

text \<open>
  Lines 39 to 57: the context manager together with the body of the \<^verbatim>\<open>with\<close> statement.
  Lines 52 and 53 run before the \<^verbatim>\<open>try\<close>, so an exception there leaves at once. The body
  runs inside the \<^verbatim>\<open>try\<close>; the \<^verbatim>\<open>finally\<close> clause then runs whether the body raised or
  not, and an exception of the \<^verbatim>\<open>finally\<close> clause itself replaces the outcome of the body.
  The body of the only \<^verbatim>\<open>with\<close> statement of the script reads the world and does not
  change it.
\<close>

definition git_checkout ::
  "string \<Rightarrow> (world \<Rightarrow> py_error + 'a) \<Rightarrow> world \<Rightarrow> (py_error + 'a) \<times> world" where
  "git_checkout ref body w =
     (case original_ref w of
        Inl e \<Rightarrow> (Inl e, w)
      | Inr orig \<Rightarrow>
          (case checkout ref w of
             (Inl e, w1) \<Rightarrow> (Inl e, w1)
           | (Inr u, w1) \<Rightarrow>
               (let r = body w1
                in case checkout orig w1 of
                     (Inl e, w2) \<Rightarrow> (Inl e, w2)
                   | (Inr u', w2) \<Rightarrow> (r, w2))))"

text \<open>Line 77, the body of the \<^verbatim>\<open>with\<close> statement: \<^verbatim>\<open>set(os.listdir(icons_dir))\<close>.\<close>

definition previous_icons :: "world \<Rightarrow> py_error + string list" where
  "previous_icons w = (case listdir w of Inl e \<Rightarrow> Inl e | Inr fs \<Rightarrow> Inr (py_set fs))"

text \<open>Lines 60 to 79.\<close>

definition get_new_icon_since :: "string \<Rightarrow> world \<Rightarrow> (py_error + string list) \<times> world" where
  "get_new_icon_since last_version w =
     (case listdir w of
        Inl e \<Rightarrow> (Inl e, w)
      | Inr fs \<Rightarrow>
          (let current_icons = py_set fs;
               w1 = print (Checking_out last_version) w
           in case git_checkout last_version previous_icons w1 of
                (Inl e, w2) \<Rightarrow> (Inl e, w2)
              | (Inr prev, w2) \<Rightarrow> (Inr (py_list (py_set_diff current_icons prev)), w2)))"

text \<open>
  Lines 82 to 107. Python passes the list \<open>result\<close> by reference, so the outcome of a call
  is the returned boolean, the list as the call leaves it, and the world.
\<close>

record verdict =
  decision :: bool
  result_after :: "string list"
  world_after :: world

definition is_greenlight :: "string list \<Rightarrow> bool \<Rightarrow> int \<Rightarrow> int \<Rightarrow> world \<Rightarrow> verdict" where
  "is_greenlight result manually_triggered day_threshold new_threshold w =
     (if manually_triggered
      then \<lparr>decision = True, result_after = result,
            world_after = print Manually_triggered w\<rparr>
      else
        (let today_day = today w
         in if today_day \<noteq> day_threshold
            then \<lparr>decision = False, result_after = result,
                  world_after = print (Wrong_day today_day day_threshold) w\<rparr>
            else if int (length result) < new_threshold
            then \<lparr>decision = False, result_after = result,
                  world_after = print (Below_threshold (length result) new_threshold) w\<rparr>
            else \<lparr>decision = True, result_after = result,
                  world_after = print Greenlight w\<rparr>))"

text \<open>
  Lines 19 and 110 to 113: the module-level statements up to the assignment of
  \<open>greenlight\<close>. An exception of an earlier statement ends the run there.
\<close>

definition greenlight :: "world \<Rightarrow> (py_error + bool) \<times> world" where
  "greenlight w =
     (case last_release (tags w) of
        Inl e \<Rightarrow> (Inl e, w)
      | Inr lr \<Rightarrow>
          (case get_new_icon_since lr w of
             (Inl e, w1) \<Rightarrow> (Inl e, w1)
           | (Inr result, w1) \<Rightarrow>
               (let w2 = print (New_icons (length result)) w1;
                    v = is_greenlight result (is_workflow_dispatch (environ w2))
                          DAY_THRESHOLD NEW_THRESHOLD w2
                in (Inr (decision v), world_after v))))"

text \<open>
  Lines 114 to 116. \<^verbatim>\<open>exit(n)\<close> ends the process with status \<open>n\<close>; an exception nobody
  catches ends it with status 1.
\<close>

definition main :: "world \<Rightarrow> int \<times> world" where
  "main w =
     (case greenlight w of
        (Inl e, w1) \<Rightarrow> (1, w1)
      | (Inr g, w1) \<Rightarrow>
          (let w2 = print (Verdict g) w1
           in (if \<not> g then 1 else 0, w2)))"

subsection \<open>Example worlds and the vocabulary of the properties\<close>

text \<open>
  The scenario of the specification: the tags \<^verbatim>\<open>v2.10.0\<close>, \<^verbatim>\<open>v2.11.0\<close> and \<^verbatim>\<open>nightly\<close>,
  committed in this order, listed by name; the branch \<^verbatim>\<open>main\<close> is checked out and holds
  three icons, of which the release \<^verbatim>\<open>v2.11.0\<close> had one; the old revision
  \<^verbatim>\<open>v1.0.0\<close> can be checked out and has no directory \<^verbatim>\<open>../svgs\<close>, and the checkout of
  the revision \<^verbatim>\<open>v0.9.0\<close> moves \<^verbatim>\<open>HEAD\<close> and then fails in a hook. The run is scheduled,
  on the first day of a month.
\<close>

definition example_tags :: "tag list" where
  "example_tags =
     [\<lparr>name = ''nightly'', commit = \<lparr>committed_datetime = 3000\<rparr>\<rparr>,
      \<lparr>name = ''v2.10.0'', commit = \<lparr>committed_datetime = 1000\<rparr>\<rparr>,
      \<lparr>name = ''v2.11.0'', commit = \<lparr>committed_datetime = 2000\<rparr>\<rparr>]"

definition example_world :: world where
  "example_world =
     \<lparr>environ = Map.empty,
      today = 1,
      tags = example_tags,
      head = Attached ''main'',
      branches = [''main''],
      revs = [''main'' \<mapsto> Some [''a.svg'', ''b.svg'', ''c.svg''],
              ''nightly'' \<mapsto> Some [''a.svg'', ''b.svg'', ''c.svg''],
              ''v2.11.0'' \<mapsto> Some [''a.svg''],
              ''v2.10.0'' \<mapsto> Some [],
              ''v1.0.0'' \<mapsto> None],
      half_done = [''v0.9.0'' \<mapsto> Some []],
      svgs = Some [''a.svg'', ''b.svg'', ''c.svg''],
      git_log = [],
      stdout = []\<rparr>"

text \<open>The same repository with \<^verbatim>\<open>HEAD\<close> detached at the nightly tag.\<close>

definition detached_world :: world where
  "detached_world = example_world\<lparr>head := Detached ''nightly''\<rparr>"

text \<open>
  Two tags on one commit, as when the nightly tag is moved onto a release commit, in the
  two orders a tag list can have them.
\<close>

definition tied_tags :: "tag list" where
  "tied_tags =
     [\<lparr>name = ''nightly'', commit = \<lparr>committed_datetime = 5000\<rparr>\<rparr>,
      \<lparr>name = ''v2.12.0'', commit = \<lparr>committed_datetime = 5000\<rparr>\<rparr>]"

text \<open>
  \<open>on_branch w b\<close>: \<^verbatim>\<open>HEAD\<close> is attached to the local branch \<open>b\<close>, which git can check out.
\<close>

definition on_branch :: "world \<Rightarrow> string \<Rightarrow> bool" where
  "on_branch w b = (head w = Attached b \<and> b \<in> set (branches w) \<and> revs w b \<noteq> None)"

text \<open>
  \<open>issued w w'\<close>: the \<^verbatim>\<open>git checkout\<close> commands run between the worlds \<open>w\<close> and \<open>w'\<close>.
  \<open>restore_ran w w'\<close>: two of them were run, and the second one checks out what \<^verbatim>\<open>HEAD\<close>
  was in \<open>w\<close>; this is the restoration step of \<open>git_checkout\<close> having executed.
\<close>

definition issued :: "world \<Rightarrow> world \<Rightarrow> string list" where
  "issued w w' = drop (length (git_log w)) (git_log w')"

definition head_target :: "head \<Rightarrow> string" where
  "head_target h = (case h of Attached b \<Rightarrow> b | Detached c \<Rightarrow> c)"

definition restore_ran :: "world \<Rightarrow> world \<Rightarrow> bool" where
  "restore_ran w w' =
     (length (issued w w') = 2 \<and> issued w w' ! 1 = head_target (head w))"

section \<open>Properties\<close>

subsection \<open>The library model\<close>

text \<open>
  The stable sort is unique: any list that has the elements of \<open>xs\<close>, is ascending in the
  key and keeps the elements of each key in the order of \<open>xs\<close> is \<open>py_sorted f xs\<close>.
\<close>

lemma py_sorted_unique:
  assumes "mset ys = mset xs"
    and "sorted (map f ys)"
    and "\<And>k. filter (\<lambda>x. f x = k) ys = filter (\<lambda>x. f x = k) xs"
  shows "py_sorted f xs = ys"
proof -
  have "filter (\<lambda>x. f k = f x) ys = filter (\<lambda>x. f k = f x) xs" for k
    using assms(3) [of "f k"] by (simp add: eq_commute)
  with assms(1,2) show ?thesis
    unfolding py_sorted_def by (intro properties_for_sort_key) simp_all
qed

lemma py_sorted_stable_sort:
  "mset (py_sorted f xs) = mset xs"
  "sorted (map f (py_sorted f xs))"
  "filter (\<lambda>x. f x = k) (py_sorted f xs) = filter (\<lambda>x. f x = k) xs"
  by (simp_all add: py_sorted_def sort_key_stable)

lemma length_py_sorted: "length (py_sorted f xs) = length xs"
  by (simp add: py_sorted_def)

lemma py_sorted_permutation:
  assumes "mset xs = mset ys" and "distinct (map f xs)"
  shows "py_sorted f xs = py_sorted f ys"
proof -
  from assms(2) have inj: "inj_on f (set xs)"
    by (simp add: distinct_map)
  have perm: "mset xs = mset (sort_key f ys)"
    using assms(1) by simp
  have "sorted (map f (sort_key f ys))"
    by simp
  with perm inj have "sort_key f xs = sort_key f ys"
    by (rule sort_key_inj_key_eq)
  then show ?thesis
    by (simp add: py_sorted_def)
qed

lemma py_index_second_from_last:
  "2 \<le> length xs \<Longrightarrow> py_index xs (- 2) = Inr (xs ! (length xs - 2))"
  by (simp add: py_index_def Let_def nat_diff_distrib' int_ops)

lemma py_index_too_short:
  "length xs < 2 \<Longrightarrow> py_index xs (- 2) = Inl IndexError"
  by (simp add: py_index_def Let_def)

lemma set_py_set_diff: "set (py_list (py_set_diff (py_set a) (py_set b))) = set a - set b"
  by (auto simp: py_list_def py_set_diff_def py_set_def)

lemma distinct_py_set_diff: "distinct (py_list (py_set_diff (py_set a) (py_set b)))"
  by (simp add: py_list_def py_set_diff_def py_set_def)

lemma original_ref_attached: "head w = Attached b \<Longrightarrow> original_ref w = Inr b"
  by (simp add: original_ref_def is_detached_def head_ref_name_def)

lemma original_ref_detached: "head w = Detached c \<Longrightarrow> original_ref w = Inl TypeError"
  by (simp add: original_ref_def is_detached_def head_ref_name_def active_branch_name_def)

lemma checkout_refused:
  "revs w ref = None \<Longrightarrow> half_done w ref = None \<Longrightarrow>
     checkout ref w = (Inl GitCommandError, w\<lparr>git_log := git_log w @ [ref]\<rparr>)"
  by (simp add: checkout_def)

lemma checkout_half_done:
  "revs w ref = None \<Longrightarrow> half_done w ref = Some d \<Longrightarrow>
     checkout ref w =
       (Inl GitCommandError,
        w\<lparr>git_log := git_log w @ [ref],
          head := (if ref \<in> set (branches w) then Attached ref else Detached ref),
          svgs := d\<rparr>)"
  by (simp add: checkout_def)

lemma checkout_raises: "revs w ref = None \<Longrightarrow> fst (checkout ref w) = Inl GitCommandError"
  by (simp add: checkout_def Let_def split: option.splits)

lemma checkout_git_log: "git_log (snd (checkout ref w)) = git_log w @ [ref]"
  by (simp add: checkout_def Let_def split: option.splits)

lemma checkout_done:
  "revs w ref = Some d \<Longrightarrow>
     checkout ref w =
       (Inr (), w\<lparr>git_log := git_log w @ [ref],
                 head := (if ref \<in> set (branches w) then Attached ref else Detached ref),
                 svgs := d\<rparr>)"
  by (simp add: checkout_def)

subsection \<open>The scoped checkout, step by step\<close>

lemma git_checkout_done:
  assumes "on_branch w b" and "revs w ref = Some d"
  shows "git_checkout ref body w =
           (body (snd (checkout ref w)),
            w\<lparr>git_log := git_log w @ [ref, b], head := Attached b, svgs := the (revs w b)\<rparr>)"
  using assms
  by (auto simp: git_checkout_def on_branch_def original_ref_attached checkout_def Let_def)

lemma git_checkout_target_raises:
  assumes "head w = Attached b" and "revs w ref = None"
  shows "git_checkout ref body w = (Inl GitCommandError, snd (checkout ref w))"
proof -
  obtain x w1 where c: "checkout ref w = (x, w1)"
    by (cases "checkout ref w")
  with assms(2) have "x = Inl GitCommandError"
    using checkout_raises [of w ref] by simp
  with c assms(1) show ?thesis
    by (simp add: git_checkout_def original_ref_attached)
qed

lemma git_checkout_runs_restore:
  assumes "head w = Attached b" and "revs w ref = Some d"
  shows "git_log (snd (git_checkout ref body w)) = git_log w @ [ref, b]"
proof -
  obtain u w1 where c: "checkout ref w = (Inr u, w1)"
    using assms(2) by (simp add: checkout_def Let_def)
  then have l1: "git_log w1 = git_log w @ [ref]"
    using checkout_git_log [of ref w] by simp
  obtain x w2 where r: "checkout b w1 = (x, w2)"
    by (cases "checkout b w1")
  then have "git_log w2 = git_log w1 @ [b]"
    using checkout_git_log [of b w1] by simp
  with l1 have l: "git_log w2 = git_log w @ [ref, b]"
    by simp
  from assms(1) c r have "snd (git_checkout ref body w) = w2"
    by (cases x) (simp_all add: git_checkout_def original_ref_attached Let_def)
  with l show ?thesis
    by simp
qed

text \<open>
  A target whose checkout moves \<^verbatim>\<open>HEAD\<close> and then fails: the error leaves the scoped
  checkout before the \<^verbatim>\<open>try\<close>, and \<^verbatim>\<open>HEAD\<close> stays at the target.
\<close>

lemma git_checkout_half_done_example:
  "fst (git_checkout ''v0.9.0'' previous_icons example_world) = Inl GitCommandError
   \<and> git_log (snd (git_checkout ''v0.9.0'' previous_icons example_world)) = [''v0.9.0'']
   \<and> head (snd (git_checkout ''v0.9.0'' previous_icons example_world)) = Detached ''v0.9.0''"
  by (simp add: git_checkout_def original_ref_def is_detached_def head_ref_name_def
      checkout_def example_world_def)

lemma git_checkout_detached:
  assumes "head w = Detached c"
  shows "git_checkout ref body w = (Inl TypeError, w)"
  using assms by (simp add: git_checkout_def original_ref_detached)

text \<open>
  The icon differ reads the clock, the environment and the tags and leaves them as they
  are; the decision of the evaluator reads the world only through the day of the month.
\<close>

lemma get_new_icon_since_frame:
  "today (snd (get_new_icon_since v w)) = today w"
  "environ (snd (get_new_icon_since v w)) = environ w"
  "tags (snd (get_new_icon_since v w)) = tags w"
  by (auto simp: get_new_icon_since_def git_checkout_def checkout_def print_def Let_def
      split: sum.splits prod.splits option.splits)

lemma decision_today:
  "today w' = today w \<Longrightarrow>
     decision (is_greenlight r m dt nt w') = decision (is_greenlight r m dt nt w)"
  by (simp add: is_greenlight_def Let_def)

subsection \<open>The greenlight evaluator\<close>

text \<open>
  C1. When the manual-trigger flag is false, \<open>is_greenlight\<close> returns true if and only if
  the day of the month equals the day threshold and the number of new icons is at least
  the count threshold. So a day other than the threshold gives false whatever the count,
  and the right day with a count below the threshold gives false.
\<close>

theorem is_greenlight_scheduled:
  "decision (is_greenlight result False day_threshold new_threshold w)
     = (today w = day_threshold \<and> new_threshold \<le> int (length result))"
  by (simp add: is_greenlight_def Let_def)

text \<open>
  The examples of the specification: day 15 against threshold 1 with 1000 icons; 99, 100
  and 150 icons against threshold 100 on the release day.
\<close>

theorem is_greenlight_scheduled_witness:
  "decision (is_greenlight (replicate 1000 ''x.svg'') False 1 100
      (example_world\<lparr>today := 15\<rparr>)) = False
   \<and> decision (is_greenlight (replicate 99 ''x.svg'') False 1 100 example_world) = False
   \<and> decision (is_greenlight (replicate 100 ''x.svg'') False 1 100 example_world) = True
   \<and> decision (is_greenlight (replicate 150 ''x.svg'') False 1 100 example_world) = True"
  using is_greenlight_scheduled [of "replicate 1000 ''x.svg''" 1 100 "example_world\<lparr>today := 15\<rparr>"]
        is_greenlight_scheduled [of "replicate 99 ''x.svg''" 1 100 example_world]
        is_greenlight_scheduled [of "replicate 100 ''x.svg''" 1 100 example_world]
        is_greenlight_scheduled [of "replicate 150 ''x.svg''" 1 100 example_world]
  by (simp add: example_world_def)

text \<open>
  C2. When the manual-trigger flag is true, \<open>is_greenlight\<close> returns true for every list
  of new icons, every day and every pair of thresholds: the day and the count are not
  looked at. The witness has an empty list on a day that is not the release day.
\<close>

theorem is_greenlight_manual:
  "decision (is_greenlight result True day_threshold new_threshold w) = True"
  by (simp add: is_greenlight_def)

theorem is_greenlight_manual_witness:
  "decision (is_greenlight [] True 1 100 (example_world\<lparr>today := 15\<rparr>)) = True"
  using is_greenlight_manual [of "[]" 1 100 "example_world\<lparr>today := 15\<rparr>"] by simp

text \<open>
  C10. The decision of \<open>is_greenlight\<close> depends on the list of new icons only through
  its length: two lists of equal length, with the same flag, thresholds and world, give
  the same decision and the same printed line. The call leaves the list it was given as
  it was.
\<close>

theorem is_greenlight_length_only:
  assumes "length r1 = length r2"
  shows "decision (is_greenlight r1 m dt nt w) = decision (is_greenlight r2 m dt nt w)
       \<and> world_after (is_greenlight r1 m dt nt w) = world_after (is_greenlight r2 m dt nt w)
       \<and> result_after (is_greenlight r1 m dt nt w) = r1
       \<and> result_after (is_greenlight r2 m dt nt w) = r2"
  using assms by (simp add: is_greenlight_def Let_def)

theorem is_greenlight_length_only_witness:
  "length [''a.svg'', ''b.svg''] = length [''x.svg'', ''y.svg'']
   \<and> decision (is_greenlight [''a.svg'', ''b.svg''] False 1 2 example_world)
       = decision (is_greenlight [''x.svg'', ''y.svg''] False 1 2 example_world)
   \<and> world_after (is_greenlight [''a.svg'', ''b.svg''] False 1 2 example_world)
       = world_after (is_greenlight [''x.svg'', ''y.svg''] False 1 2 example_world)
   \<and> result_after (is_greenlight [''a.svg'', ''b.svg''] False 1 2 example_world)
       = [''a.svg'', ''b.svg'']"
  using is_greenlight_length_only
    [of "[''a.svg'', ''b.svg'']" "[''x.svg'', ''y.svg'']" False 1 2 example_world]
  by simp

subsection \<open>The trigger classifier\<close>

text \<open>
  C9. For every process environment, \<open>is_workflow_dispatch\<close> returns true if and only if
  \<^verbatim>\<open>GITHUB_EVENT_NAME\<close> is set to \<^verbatim>\<open>workflow_dispatch\<close> or \<^verbatim>\<open>CI_PIPELINE_SOURCE\<close> is set
  to \<^verbatim>\<open>web\<close>; it returns false otherwise, also when both variables are absent or hold
  another value. The function has no path that raises: \<^verbatim>\<open>os.getenv\<close> returns \<^verbatim>\<open>None\<close>
  for a missing variable, so the result is a plain boolean for every environment.
\<close>

theorem is_workflow_dispatch_iff:
  "is_workflow_dispatch env
     = (env ''GITHUB_EVENT_NAME'' = Some ''workflow_dispatch''
        \<or> env ''CI_PIPELINE_SOURCE'' = Some ''web'')"
  by (simp add: is_workflow_dispatch_def getenv_def)

theorem is_workflow_dispatch_iff_witness:
  "is_workflow_dispatch Map.empty = False
   \<and> is_workflow_dispatch [''GITHUB_EVENT_NAME'' \<mapsto> ''schedule''] = False
   \<and> is_workflow_dispatch [''GITHUB_EVENT_NAME'' \<mapsto> ''workflow_dispatch''] = True
   \<and> is_workflow_dispatch [''CI_PIPELINE_SOURCE'' \<mapsto> ''web''] = True
   \<and> is_workflow_dispatch [''CI_PIPELINE_SOURCE'' \<mapsto> ''schedule'', ''GITHUB_EVENT_NAME'' \<mapsto> ''push''] = False"
  using is_workflow_dispatch_iff [of Map.empty]
    is_workflow_dispatch_iff [of "[''GITHUB_EVENT_NAME'' \<mapsto> ''schedule'']"]
    is_workflow_dispatch_iff [of "[''GITHUB_EVENT_NAME'' \<mapsto> ''workflow_dispatch'']"]
    is_workflow_dispatch_iff [of "[''CI_PIPELINE_SOURCE'' \<mapsto> ''web'']"]
    is_workflow_dispatch_iff [of "[''CI_PIPELINE_SOURCE'' \<mapsto> ''schedule'', ''GITHUB_EVENT_NAME'' \<mapsto> ''push'']"]
  by simp

subsection \<open>The tag resolver\<close>

text \<open>
  C7. With fewer than two tags the index \<^verbatim>\<open>[-2]\<close> is out of range: the lookup of the last
  release raises \<^verbatim>\<open>IndexError\<close>, and the run ends there with status 1, before anything
  is printed and before any checkout (the world is as it was).
\<close>

theorem last_release_too_few_tags:
  assumes "length (tags w) < 2"
  shows "last_release (tags w) = Inl IndexError
       \<and> greenlight w = (Inl IndexError, w)
       \<and> main w = (1, w)"
proof -
  have "last_release (tags w) = Inl IndexError"
    using assms by (simp add: last_release_def py_index_too_short length_py_sorted)
  then show ?thesis
    by (simp add: greenlight_def main_def)
qed

theorem last_release_too_few_tags_witness:
  "length (tags (example_world\<lparr>tags := []\<rparr>)) < 2
   \<and> last_release (tags (example_world\<lparr>tags := []\<rparr>)) = Inl IndexError
   \<and> fst (main (example_world\<lparr>tags := []\<rparr>)) = 1
   \<and> length (tags (example_world\<lparr>tags := [\<lparr>name = ''nightly'', commit = \<lparr>committed_datetime = 3000\<rparr>\<rparr>]\<rparr>)) < 2
   \<and> fst (main (example_world\<lparr>tags := [\<lparr>name = ''nightly'', commit = \<lparr>committed_datetime = 3000\<rparr>\<rparr>]\<rparr>)) = 1
   \<and> stdout (snd (main (example_world\<lparr>tags := [\<lparr>name = ''nightly'', commit = \<lparr>committed_datetime = 3000\<rparr>\<rparr>]\<rparr>))) = []
   \<and> git_log (snd (main (example_world\<lparr>tags := [\<lparr>name = ''nightly'', commit = \<lparr>committed_datetime = 3000\<rparr>\<rparr>]\<rparr>))) = []"
  using last_release_too_few_tags [of "example_world\<lparr>tags := []\<rparr>"]
    last_release_too_few_tags [of "example_world\<lparr>tags := [\<lparr>name = ''nightly'', commit = \<lparr>committed_datetime = 3000\<rparr>\<rparr>]\<rparr>"]
  by (simp add: example_world_def)

text \<open>
  C4, as the code has it. For every tag list of length at least two, \<open>last_release\<close> is
  the name of the second-from-last element of the tags sorted ascending by commit time
  with the stable sort. When the commit times of the tags are pairwise distinct, every
  reordering of the tag list gives the same last release. The witness is the scenario of
  the specification, in the order the tags are listed and in the reverse order.
\<close>

theorem last_release_second_from_last:
  assumes "2 \<le> length ts"
  shows "last_release ts = Inr (name (py_sorted commit_time ts ! (length ts - 2)))
       \<and> (distinct (map commit_time ts) \<and> mset ts' = mset ts
            \<longrightarrow> last_release ts' = last_release ts)"
proof
  show "last_release ts = Inr (name (py_sorted commit_time ts ! (length ts - 2)))"
    using assms by (simp add: last_release_def py_index_second_from_last length_py_sorted)
next
  show "distinct (map commit_time ts) \<and> mset ts' = mset ts
          \<longrightarrow> last_release ts' = last_release ts"
  proof
    assume h: "distinct (map commit_time ts) \<and> mset ts' = mset ts"
    then have "py_sorted commit_time ts = py_sorted commit_time ts'"
      by (intro py_sorted_permutation) simp_all
    then show "last_release ts' = last_release ts"
      by (simp add: last_release_def)
  qed
qed

theorem last_release_second_from_last_witness:
  "2 \<le> length example_tags
   \<and> distinct (map commit_time example_tags)
   \<and> mset (rev example_tags) = mset example_tags
   \<and> last_release example_tags = Inr ''v2.11.0''
   \<and> last_release (rev example_tags) = Inr ''v2.11.0''"
proof -
  have a: "2 \<le> length example_tags"
    by (simp add: example_tags_def)
  have b: "distinct (map commit_time example_tags) \<and> mset (rev example_tags) = mset example_tags"
    by (simp add: example_tags_def commit_time_def)
  have c: "name (py_sorted commit_time example_tags ! (length example_tags - 2)) = ''v2.11.0''"
    by (simp add: example_tags_def commit_time_def py_sorted_def)
  from last_release_second_from_last [OF a, of "rev example_tags"] a b c
  show ?thesis by simp
qed

text \<open>
  C4, as stated, fails when two tags point to commits of the same time: the stable sort
  keeps them in the order of the input, so the selection follows the input order. With
  the nightly tag and the tag \<^verbatim>\<open>v2.12.0\<close> on one commit, the list in one order gives
  \<^verbatim>\<open>nightly\<close> and the same tags in the other order give \<^verbatim>\<open>v2.12.0\<close>.
\<close>

theorem last_release_order_counterexample:
  "2 \<le> length tied_tags
   \<and> mset (rev tied_tags) = mset tied_tags
   \<and> last_release tied_tags = Inr ''nightly''
   \<and> last_release (rev tied_tags) = Inr ''v2.12.0''
   \<and> last_release (rev tied_tags) \<noteq> last_release tied_tags"
  by (simp add: tied_tags_def last_release_def py_sorted_def py_index_def commit_time_def)

subsection \<open>The scoped checkout\<close>

text \<open>
  C3, as the code has it. Let \<^verbatim>\<open>HEAD\<close> be on a branch \<open>b\<close>. When the checkout of the target
  reference succeeds, then whatever the body does, return a value or raise, the
  restoration step executes after it: two checkouts were run, the second one of \<open>b\<close>.
  When moreover \<open>b\<close> is a local branch that git checks out without error, \<^verbatim>\<open>HEAD\<close> is on \<open>b\<close>
  again, the directory is that of \<open>b\<close>, and the outcome of the whole statement is the
  outcome of the body, so an exception of the body propagates after the restoration.
  When the checkout of the target reference itself raises, the error propagates at once:
  that one checkout is the only one run, and there is no restoration step.
\<close>

theorem git_checkout_restores:
  assumes "head w = Attached b"
  shows "(revs w ref \<noteq> None \<longrightarrow>
            issued w (snd (git_checkout ref body w)) = [ref, b]
          \<and> restore_ran w (snd (git_checkout ref body w))
          \<and> (on_branch w b \<longrightarrow>
                fst (git_checkout ref body w) = body (snd (checkout ref w))
              \<and> head (snd (git_checkout ref body w)) = Attached b
              \<and> Some (svgs (snd (git_checkout ref body w))) = revs w b))
       \<and> (revs w ref = None \<longrightarrow>
            fst (git_checkout ref body w) = Inl GitCommandError
          \<and> issued w (snd (git_checkout ref body w)) = [ref]
          \<and> \<not> restore_ran w (snd (git_checkout ref body w)))"
proof (cases "revs w ref")
  case None
  with assms have "git_checkout ref body w = (Inl GitCommandError, snd (checkout ref w))"
    by (rule git_checkout_target_raises)
  then have "fst (git_checkout ref body w) = Inl GitCommandError"
    and "issued w (snd (git_checkout ref body w)) = [ref]"
    by (simp_all add: issued_def checkout_git_log)
  with None show ?thesis
    by (simp add: restore_ran_def)
next
  case (Some d)
  with assms have "git_log (snd (git_checkout ref body w)) = git_log w @ [ref, b]"
    by (rule git_checkout_runs_restore)
  then have ran: "issued w (snd (git_checkout ref body w)) = [ref, b]"
    by (simp add: issued_def)
  with assms have rr: "restore_ran w (snd (git_checkout ref body w))"
    by (simp add: restore_ran_def head_target_def)
  have "fst (git_checkout ref body w) = body (snd (checkout ref w))
      \<and> head (snd (git_checkout ref body w)) = Attached b
      \<and> Some (svgs (snd (git_checkout ref body w))) = revs w b"
    if ob: "on_branch w b"
  proof -
    from ob Some have "git_checkout ref body w =
           (body (snd (checkout ref w)),
            w\<lparr>git_log := git_log w @ [ref, b], head := Attached b, svgs := the (revs w b)\<rparr>)"
      by (rule git_checkout_done)
    moreover from ob have "revs w b \<noteq> None"
      by (simp add: on_branch_def)
    ultimately show ?thesis
      by auto
  qed
  with Some ran rr show ?thesis
    by simp
qed

theorem git_checkout_restores_witness:
  "head example_world = Attached ''main''
   \<and> on_branch example_world ''main''
   \<and> revs example_world ''v1.0.0'' \<noteq> None
   \<and> fst (git_checkout ''v1.0.0'' previous_icons example_world) = Inl FileNotFoundError
   \<and> head (snd (git_checkout ''v1.0.0'' previous_icons example_world)) = Attached ''main''
   \<and> issued example_world (snd (git_checkout ''v1.0.0'' previous_icons example_world))
       = [''v1.0.0'', ''main'']
   \<and> restore_ran example_world (snd (git_checkout ''v1.0.0'' previous_icons example_world))
   \<and> revs example_world ''v9.9.9'' = None
   \<and> fst (git_checkout ''v9.9.9'' previous_icons example_world) = Inl GitCommandError
   \<and> issued example_world (snd (git_checkout ''v9.9.9'' previous_icons example_world))
       = [''v9.9.9'']
   \<and> \<not> restore_ran example_world (snd (git_checkout ''v9.9.9'' previous_icons example_world))"
proof -
  have h: "head example_world = Attached ''main''"
    by (simp add: example_world_def)
  have a: "on_branch example_world ''main''"
    by (simp add: on_branch_def example_world_def)
  have b: "revs example_world ''v1.0.0'' \<noteq> None" "revs example_world ''v9.9.9'' = None"
    by (simp_all add: example_world_def)
  have c: "previous_icons (snd (checkout ''v1.0.0'' example_world)) = Inl FileNotFoundError"
    by (simp add: example_world_def checkout_def previous_icons_def listdir_def)
  from git_checkout_restores [OF h, of "''v1.0.0''" previous_icons]
       git_checkout_restores [OF h, of "''v9.9.9''" previous_icons] h a b c
  show ?thesis by simp
qed

text \<open>
  C3, as stated, fails at a target reference that git refuses: line 53 is outside the
  \<^verbatim>\<open>try\<close>, so the \<^verbatim>\<open>finally\<close> clause does not run and the error propagates with no
  restoration step executed.
\<close>

theorem git_checkout_no_restore_counterexample:
  "fst (git_checkout ''v9.9.9'' previous_icons example_world) = Inl GitCommandError
   \<and> issued example_world (snd (git_checkout ''v9.9.9'' previous_icons example_world))
       = [''v9.9.9'']
   \<and> \<not> restore_ran example_world (snd (git_checkout ''v9.9.9'' previous_icons example_world))"
  by (simp add: git_checkout_def original_ref_def is_detached_def head_ref_name_def
        checkout_def example_world_def restore_ran_def issued_def)

text \<open>
  C8. With \<^verbatim>\<open>HEAD\<close> detached, line 52 finds \<^verbatim>\<open>is_detached\<close> true and then reads
  \<^verbatim>\<open>repo.active_branch\<close>, which raises \<^verbatim>\<open>TypeError\<close> in exactly this state. The scoped
  checkout fails before any checkout is run, and the run ends with status 1 after the
  line that announces the checkout. (On a branch, line 52 records the branch name:
  lemma \<open>original_ref_attached\<close>.)
\<close>

theorem detached_head_type_error:
  "is_detached detached_world
   \<and> original_ref detached_world = Inl TypeError
   \<and> fst (git_checkout ''v2.11.0'' previous_icons detached_world) = Inl TypeError
   \<and> git_log (snd (git_checkout ''v2.11.0'' previous_icons detached_world)) = []
   \<and> fst (main detached_world) = 1
   \<and> stdout (snd (main detached_world)) = [Checking_out ''v2.11.0'']"
  by (simp add: detached_world_def example_world_def example_tags_def main_def greenlight_def
      last_release_def py_sorted_def py_index_def
      commit_time_def get_new_icon_since_def listdir_def git_checkout_def original_ref_def
      is_detached_def head_ref_name_def active_branch_name_def print_def py_set_def Let_def)

subsection \<open>The icon differ\<close>

text \<open>
  C5. With \<^verbatim>\<open>HEAD\<close> on a branch, for every listing \<open>current\<close> of the icons directory before
  the call and every listing \<open>previous\<close> of it at the last release, \<open>get_new_icon_since\<close>
  returns a list whose elements are exactly the names in \<open>current\<close> that are not in
  \<open>previous\<close>, each once, so that its length is the number of new icons. The witness is
  the scenario of the specification: three icons now, one at \<^verbatim>\<open>v2.11.0\<close>, two new ones.
\<close>

theorem get_new_icon_since_difference:
  assumes "on_branch w b"
    and "svgs w = Some current"
    and "revs w last_version = Some (Some previous)"
  shows "\<exists>r. fst (get_new_icon_since last_version w) = Inr r
           \<and> set r = set current - set previous
           \<and> distinct r
           \<and> length r = card (set current - set previous)"
proof -
  let ?w1 = "print (Checking_out last_version) w"
  let ?r = "py_list (py_set_diff (py_set current) (py_set previous))"
  from assms(1) have "on_branch ?w1 b"
    by (simp add: on_branch_def print_def)
  moreover from assms(3) have "revs ?w1 last_version = Some (Some previous)"
    by (simp add: print_def)
  ultimately have "fst (git_checkout last_version previous_icons ?w1)
      = previous_icons (snd (checkout last_version ?w1))"
    by (simp add: git_checkout_done)
  also have "\<dots> = Inr (py_set previous)"
    using assms(3) by (simp add: previous_icons_def listdir_def checkout_def print_def)
  finally have "\<exists>w2. git_checkout last_version previous_icons ?w1 = (Inr (py_set previous), w2)"
    by (cases "git_checkout last_version previous_icons ?w1") simp
  then have "fst (get_new_icon_since last_version w) = Inr ?r"
    using assms(2) by (auto simp: get_new_icon_since_def listdir_def Let_def)
  moreover have "set ?r = set current - set previous"
    by (rule set_py_set_diff)
  moreover have "distinct ?r"
    by (rule distinct_py_set_diff)
  ultimately show ?thesis
    by (metis distinct_card)
qed

theorem get_new_icon_since_difference_witness:
  "on_branch example_world ''main''
   \<and> svgs example_world = Some [''a.svg'', ''b.svg'', ''c.svg'']
   \<and> revs example_world ''v2.11.0'' = Some (Some [''a.svg''])
   \<and> (\<exists>r. fst (get_new_icon_since ''v2.11.0'' example_world) = Inr r
         \<and> set r = {''b.svg'', ''c.svg''} \<and> distinct r \<and> length r = 2)"
proof -
  have a: "on_branch example_world ''main''"
    by (simp add: on_branch_def example_world_def)
  have b: "svgs example_world = Some [''a.svg'', ''b.svg'', ''c.svg'']"
    by (simp add: example_world_def)
  have c: "revs example_world ''v2.11.0'' = Some (Some [''a.svg''])"
    by (simp add: example_world_def)
  have d: "set [''a.svg'', ''b.svg'', ''c.svg''] - set [''a.svg''] = {''b.svg'', ''c.svg''}"
    by auto
  from get_new_icon_since_difference [OF a b c] a b c show ?thesis
    unfolding d by (simp add: numeral_2_eq_2)
qed

subsection \<open>The driver\<close>

text \<open>
  C6. The driver ends the process with status 0 if and only if the greenlight decision
  was reached and is true, and with status 1 otherwise. The decision is that of
  \<open>is_greenlight\<close> on the new icons and the trigger, with the day threshold 1 and the
  count threshold 100. The witness runs the scenario of the specification as a scheduled
  run (two new icons: status 1), as a manual run (status 0) and without tags (status 1).
\<close>

theorem main_exit_status:
  "fst (main w) = (if fst (greenlight w) = Inr True then 0 else 1)
   \<and> fst (greenlight w) =
       (case last_release (tags w) of
          Inl e \<Rightarrow> Inl e
        | Inr lr \<Rightarrow>
            (case fst (get_new_icon_since lr w) of
               Inl e \<Rightarrow> Inl e
             | Inr result \<Rightarrow>
                 Inr (decision (is_greenlight result (is_workflow_dispatch (environ w))
                        1 100 w))))"
proof
  show "fst (main w) = (if fst (greenlight w) = Inr True then 0 else 1)"
    by (simp add: main_def Let_def split: prod.splits sum.splits)
next
  show "fst (greenlight w) =
       (case last_release (tags w) of
          Inl e \<Rightarrow> Inl e
        | Inr lr \<Rightarrow>
            (case fst (get_new_icon_since lr w) of
               Inl e \<Rightarrow> Inl e
             | Inr result \<Rightarrow>
                 Inr (decision (is_greenlight result (is_workflow_dispatch (environ w))
                        1 100 w))))"
  proof (cases "last_release (tags w)")
    case (Inl e)
    then show ?thesis
      by (simp add: greenlight_def)
  next
    case (Inr lr)
    obtain x w1 where g: "get_new_icon_since lr w = (x, w1)"
      by (cases "get_new_icon_since lr w")
    then have fr: "today w1 = today w" "environ w1 = environ w"
      using get_new_icon_since_frame(1) [of lr w] get_new_icon_since_frame(2) [of lr w]
      by simp_all
    show ?thesis
    proof (cases x)
      case (Inl e)
      with Inr g show ?thesis
        by (simp add: greenlight_def)
    next
      case (Inr result)
      let ?w2 = "print (New_icons (length result)) w1"
      have t: "today ?w2 = today w" and e: "environ ?w2 = environ w"
        using fr by (simp_all add: print_def)
      have "decision (is_greenlight result (is_workflow_dispatch (environ ?w2)) 1 100 ?w2)
          = decision (is_greenlight result (is_workflow_dispatch (environ w)) 1 100 w)"
        unfolding e using t by (rule decision_today)
      with \<open>last_release (tags w) = Inr lr\<close> g Inr show ?thesis
        by (simp add: greenlight_def Let_def NEW_THRESHOLD_def DAY_THRESHOLD_def)
    qed
  qed
qed

theorem main_exit_status_witness:
  "fst (main example_world) = 1
   \<and> fst (greenlight example_world) = Inr False
   \<and> fst (main (example_world\<lparr>environ := [''GITHUB_EVENT_NAME'' \<mapsto> ''workflow_dispatch'']\<rparr>)) = 0
   \<and> fst (main (example_world\<lparr>tags := []\<rparr>)) = 1"
  using main_exit_status [of example_world]
    main_exit_status [of "example_world\<lparr>environ := [''GITHUB_EVENT_NAME'' \<mapsto> ''workflow_dispatch'']\<rparr>"]
    main_exit_status [of "example_world\<lparr>tags := []\<rparr>"]
  by (simp add: example_world_def example_tags_def last_release_def py_sorted_def py_index_def
      commit_time_def get_new_icon_since_def listdir_def git_checkout_def original_ref_def
      is_detached_def head_ref_name_def checkout_def print_def previous_icons_def py_set_def
      py_set_diff_def py_list_def is_greenlight_def is_workflow_dispatch_def getenv_def Let_def)

end
